theory Spec2Isabelle
  imports Main
begin

section \<open>The runtime the package talks to\<close>

text \<open>
  The package \<^verbatim>\<open>logopher\<close> owns no algorithmic state of its own: it calls into
  \<^verbatim>\<open>net\<close>, \<^verbatim>\<open>os\<close>, \<^verbatim>\<open>time\<close>, \<^verbatim>\<open>fmt\<close> and \<^verbatim>\<open>log\<close>. Those calls are modelled
  explicitly. A Go \<^verbatim>\<open>string\<close> and a \<^verbatim>\<open>[]byte\<close> are both byte sequences, here
  \<^typ>\<open>string\<close>; the conversion \<^verbatim>\<open>[]byte(data)\<close> is the identity on them.
\<close>

text \<open>Go \<^verbatim>\<open>error\<close> values; a Go \<^verbatim>\<open>error\<close> that may be \<^verbatim>\<open>nil\<close> is an option of them.\<close>

datatype error =
    ErrNetClosing       \<comment> \<open>what \<^verbatim>\<open>net\<close> reports for a connection that was closed before\<close>
  | OSError string      \<comment> \<open>any failure reported by the operating system\<close>

text \<open>
  A call that comes back either returns its results or panics. The one panic the
  package can raise on a writer is the nil pointer dereference of a method of
  \<^verbatim>\<open>net.UDPConn\<close> called through a nil \<^verbatim>\<open>*net.UDPConn\<close>; nothing in the package
  recovers from it.
\<close>

datatype 'a outcome = Returns 'a | Panics

datatype udpaddr = UDPAddr string nat

text \<open>The identity of a \<^verbatim>\<open>net.UDPConn\<close> object; a \<^verbatim>\<open>*net.UDPConn\<close> is a \<^typ>\<open>nat option\<close>.\<close>

type_synonym conn = nat

text \<open>Every call the package makes into \<^verbatim>\<open>net\<close>, \<^verbatim>\<open>os\<close> and \<^verbatim>\<open>time\<close>.\<close>

datatype call =
    ResolveUDPAddr string
  | NetDialUDP udpaddr
  | ConnWrite "conn option" string
  | ConnClose "conn option"
  | OsHostname
  | TimeNow

text \<open>The arguments of a \<^verbatim>\<open>log.Printf\<close> call, kept unrendered.\<close>

datatype arg = S string | D int | E error

text \<open>
  What the outside world answers. Each answer may depend on everything the package has
  asked so far (the list of earlier calls, oldest first), so an environment is any
  deterministic behaviour of resolver, sockets, host name and clock.
\<close>

record env =
  resolveUDPAddr :: "call list \<Rightarrow> string \<Rightarrow> error + udpaddr"
  dialUDP :: "call list \<Rightarrow> udpaddr \<Rightarrow> error option"
  connWrite :: "call list \<Rightarrow> conn \<Rightarrow> string \<Rightarrow> nat \<times> error option"
  connClose :: "call list \<Rightarrow> conn \<Rightarrow> error option"
  osHostname :: "call list \<Rightarrow> error + string"
  timeNow :: "call list \<Rightarrow> string"

text \<open>
  The part of the world the package changes: the calls made so far, the number of
  connection objects created (the next one gets this number as its identity), the
  connections that are open, and the lines handed to the process-wide logger.
\<close>

record world =
  calls :: "call list"
  conns :: nat
  live :: "conn set"
  sink :: "(string \<times> arg list) list"

definition net_ResolveUDPAddr :: "env \<Rightarrow> string \<Rightarrow> world \<Rightarrow> (error + udpaddr) \<times> world" where
  "net_ResolveUDPAddr env a w =
     (resolveUDPAddr env (calls w) a, w\<lparr>calls := calls w @ [ResolveUDPAddr a]\<rparr>)"

definition net_DialUDP :: "env \<Rightarrow> udpaddr \<Rightarrow> world \<Rightarrow> (error + conn) \<times> world" where
  "net_DialUDP env a w =
     (case dialUDP env (calls w) a of
        Some e \<Rightarrow> (Inl e, w\<lparr>calls := calls w @ [NetDialUDP a]\<rparr>)
      | None \<Rightarrow> (Inr (conns w),
                 w\<lparr>calls := calls w @ [NetDialUDP a],
                   conns := Suc (conns w),
                   live := insert (conns w) (live w)\<rparr>))"

text \<open>
  \<^verbatim>\<open>(*UDPConn).Write\<close>: through a nil pointer the call panics; on a connection closed
  before, \<^verbatim>\<open>net\<close> returns \<^verbatim>\<open>(0, ErrNetClosing)\<close>; only an open connection reaches the
  transport. The count is a natural number: \<^verbatim>\<open>net\<close> never reports a negative one.
\<close>

definition conn_Write ::
  "env \<Rightarrow> conn option \<Rightarrow> string \<Rightarrow> world \<Rightarrow> ((nat \<times> error option) \<times> world) outcome"
where
  "conn_Write env s b w =
     (case s of
        None \<Rightarrow> Panics
      | Some c \<Rightarrow>
          Returns
            (if c \<in> live w then connWrite env (calls w) c b else (0, Some ErrNetClosing),
             w\<lparr>calls := calls w @ [ConnWrite s b]\<rparr>))"

text \<open>
  \<^verbatim>\<open>(*UDPConn).Close\<close>: through a nil pointer the call panics; on a connection closed
  before, \<^verbatim>\<open>net\<close> returns \<^verbatim>\<open>ErrNetClosing\<close>; an open connection is closed for good
  whatever the transport answers.
\<close>

definition conn_Close :: "env \<Rightarrow> conn option \<Rightarrow> world \<Rightarrow> (error option \<times> world) outcome" where
  "conn_Close env s w =
     (case s of
        None \<Rightarrow> Panics
      | Some c \<Rightarrow>
          Returns
            (if c \<in> live w
             then (connClose env (calls w) c,
                   w\<lparr>calls := calls w @ [ConnClose s], live := live w - {c}\<rparr>)
             else (Some ErrNetClosing, w\<lparr>calls := calls w @ [ConnClose s]\<rparr>)))"

text \<open>\<^verbatim>\<open>os.Hostname\<close> returns the empty name together with its error.\<close>

definition os_Hostname :: "env \<Rightarrow> world \<Rightarrow> (string \<times> error option) \<times> world" where
  "os_Hostname env w =
     (case osHostname env (calls w) of
        Inl e \<Rightarrow> ([], Some e)
      | Inr h \<Rightarrow> (h, None),
      w\<lparr>calls := calls w @ [OsHostname]\<rparr>)"

text \<open>\<^verbatim>\<open>time.Now().String()\<close>.\<close>

definition time_Now_String :: "env \<Rightarrow> world \<Rightarrow> string \<times> world" where
  "time_Now_String env w = (timeNow env (calls w), w\<lparr>calls := calls w @ [TimeNow]\<rparr>)"

definition log_Printf :: "string \<Rightarrow> arg list \<Rightarrow> world \<Rightarrow> world" where
  "log_Printf f args w = w\<lparr>sink := sink w @ [(f, args)]\<rparr>"

text \<open>
  \<^verbatim>\<open>fmt.Sprintf\<close> for the one verb the package uses with it, \<^verbatim>\<open>%s\<close> on string
  operands: every other byte of the format is copied, an operand is inserted as it is
  and is not scanned again, and a verb without an operand prints as \<^verbatim>\<open>%!s(MISSING)\<close>.
\<close>

fun fmt_Sprintf :: "string \<Rightarrow> string list \<Rightarrow> string" where
  "fmt_Sprintf [] args = []"
| "fmt_Sprintf [c] args = [c]"
| "fmt_Sprintf (c # d # fs) args =
     (if c = CHR ''%'' \<and> d = CHR ''s''
      then (case args of
              [] \<Rightarrow> ''%!s(MISSING)'' @ fmt_Sprintf fs []
            | a # as \<Rightarrow> a @ fmt_Sprintf fs as)
      else c # fmt_Sprintf (d # fs) args)"

section \<open>The package\<close>

definition basicMessageFormat :: string where
  "basicMessageFormat =
     ''{\"@timestamp\":\"%s\", \"@version\":\"2\", \"message\":\"%s\", \"host\":\"%s\"}'' @ [CHR 0x0A]"

record UDPWriter =
  socket :: "conn option"
  address :: string
  enableLogging :: bool

text \<open>
  The methods have pointer receivers and update the writer in place; here each returns
  the writer as it leaves it, next to its Go results and the world. A method that calls
  a method of the socket panics when the socket is nil, as \<^verbatim>\<open>Close\<close>, \<^verbatim>\<open>Reopen\<close>,
  \<^verbatim>\<open>Write\<close> and \<^verbatim>\<open>Log\<close> do on a writer that \<^verbatim>\<open>DialUDP\<close> has not opened.
\<close>

text \<open>The method \<^verbatim>\<open>open\<close>, whose name is a reserved word here.\<close>

definition open_conn :: "env \<Rightarrow> UDPWriter \<Rightarrow> world \<Rightarrow> error option \<times> UDPWriter \<times> world" where
  "open_conn env u w =
     (case net_ResolveUDPAddr env (address u) w of
        (Inl err, w1) \<Rightarrow> (Some err, u, w1)
      | (Inr udpAddr, w1) \<Rightarrow>
          (case net_DialUDP env udpAddr w1 of
             (Inl err, w2) \<Rightarrow> (Some err, u, w2)
           | (Inr c, w2) \<Rightarrow> (None, u\<lparr>socket := Some c\<rparr>, w2)))"

definition DialUDP :: "env \<Rightarrow> string \<Rightarrow> bool \<Rightarrow> world \<Rightarrow> (error + UDPWriter) \<times> world" where
  "DialUDP env addr logging w =
     (let writer = \<lparr>socket = None, address = addr, enableLogging = logging\<rparr>
      in case open_conn env writer w of
           (Some err, _, w') \<Rightarrow> (Inl err, w')
         | (None, writer', w') \<Rightarrow> (Inr writer', w'))"

definition Close ::
  "env \<Rightarrow> UDPWriter \<Rightarrow> world \<Rightarrow> (error option \<times> UDPWriter \<times> world) outcome"
where
  "Close env u w =
     (case conn_Close env (socket u) w of
        Panics \<Rightarrow> Panics
      | Returns (err, w') \<Rightarrow> Returns (err, u, w'))"

definition Reopen ::
  "env \<Rightarrow> UDPWriter \<Rightarrow> world \<Rightarrow> (error option \<times> UDPWriter \<times> world) outcome"
where
  "Reopen env u w =
     (case Close env u w of
        Panics \<Rightarrow> Panics
      | Returns (Some err, u1, w1) \<Rightarrow> Returns (Some err, u1, w1)
      | Returns (None, u1, w1) \<Rightarrow>
          (case open_conn env u1 w1 of
             (Some err, u2, w2) \<Rightarrow> Returns (Some err, u2, w2)
           | (None, u2, w2) \<Rightarrow> Returns (None, u2, w2)))"

text \<open>
  The loop of \<^verbatim>\<open>Write\<close> (lines 106 to 112). It has no bound on its iterations, so it
  is a partial function: \<^term>\<open>None\<close> means that the loop, and with it \<^verbatim>\<open>Write\<close>,
  never comes back.
\<close>

partial_function (option) write_loop ::
  "env \<Rightarrow> UDPWriter \<Rightarrow> string \<Rightarrow> nat \<Rightarrow> error option \<Rightarrow> world \<Rightarrow>
   ((nat \<times> error option) \<times> world) outcome option"
where
  "write_loop env u rawBytes totalBytesWritten writeError w =
     (if totalBytesWritten < length rawBytes \<and> writeError = None
      then (case conn_Write env (socket u) (drop totalBytesWritten rawBytes) w of
              Panics \<Rightarrow> Some Panics
            | Returns ((bytesWritten, writeError'), w') \<Rightarrow>
                write_loop env u rawBytes (totalBytesWritten + bytesWritten) writeError' w')
      else Some (Returns ((totalBytesWritten, writeError), w)))"

declare write_loop.simps [code]

text \<open>
  After the loop (lines 114 to 133). The source keeps the result of \<^verbatim>\<open>u.Close()\<close> in
  the variable \<^verbatim>\<open>writeError\<close>, here \<open>writeError'\<close>, and both of its remaining
  \<^verbatim>\<open>return\<close> statements return that variable.
\<close>

definition Write ::
  "env \<Rightarrow> UDPWriter \<Rightarrow> string \<Rightarrow> world \<Rightarrow>
   ((nat \<times> error option) \<times> UDPWriter \<times> world) outcome option"
where
  "Write env u rawBytes w =
     (case write_loop env u rawBytes 0 None w of
        None \<Rightarrow> None
      | Some Panics \<Rightarrow> Some Panics
      | Some (Returns ((totalBytesWritten, None), w1)) \<Rightarrow>
          Some (Returns ((totalBytesWritten, None), u, w1))
      | Some (Returns ((totalBytesWritten, Some writeError), w1)) \<Rightarrow>
          (let w2 = (if enableLogging u
                     then log_Printf
                            ''Error while writing data to %s. Expected to write %d, actually wrote %d. Underlying error: %s''
                            [S (address u), D (int (length rawBytes)), D (int totalBytesWritten), E writeError]
                            w1
                     else w1)
           in case Close env u w2 of
                Panics \<Rightarrow> Some Panics
              | Returns (writeError', u3, w3) \<Rightarrow>
                  if writeError' \<noteq> None
                  then Some (Returns ((totalBytesWritten, writeError'), u3,
                             if enableLogging u3
                             then log_Printf
                                    ''There was a subsequent error cleaning up the connection to %s''
                                    [S (address u3)] w3
                             else w3))
                  else Some (Returns ((totalBytesWritten, writeError'), u3, w3))))"

definition Log ::
  "env \<Rightarrow> UDPWriter \<Rightarrow> string \<Rightarrow> world \<Rightarrow>
   ((nat \<times> error option) \<times> UDPWriter \<times> world) outcome option"
where
  "Log env u msg w =
     (case os_Hostname env w of
        ((host, _), w1) \<Rightarrow>
          (case time_Now_String env w1 of
             (now, w2) \<Rightarrow> Write env u (fmt_Sprintf basicMessageFormat [now, msg, host]) w2))"

section \<open>Concrete environments\<close>

text \<open>
  A collector on the loopback interface that takes every datagram whole, and variations
  of it: a transport that refuses every write, a socket whose close fails as well, and a
  host without a name.
\<close>

definition loopback_env :: env where
  "loopback_env =
     \<lparr>resolveUDPAddr =
        (\<lambda>h a. if a = ''127.0.0.1:9999'' then Inr (UDPAddr ''127.0.0.1'' 9999)
               else Inl (OSError ''missing port in address'')),
      dialUDP = (\<lambda>h a. None),
      connWrite = (\<lambda>h c b. (length b, None)),
      connClose = (\<lambda>h c. None),
      osHostname = (\<lambda>h. Inr ''box''),
      timeNow = (\<lambda>h. ''T'')\<rparr>"

definition refusing_env :: env where
  "refusing_env = loopback_env\<lparr>connWrite := (\<lambda>h c b. (0, Some (OSError ''connection refused'')))\<rparr>"


definition nohost_env :: env where
  "nohost_env = loopback_env\<lparr>osHostname := (\<lambda>h. Inl (OSError ''no host name''))\<rparr>"

definition world0 :: world where
  "world0 = \<lparr>calls = [], conns = 0, live = {}, sink = []\<rparr>"

text \<open>The writer and the world that \<^verbatim>\<open>DialUDP("127.0.0.1:9999", true)\<close> leaves.\<close>

definition writer0 :: UDPWriter where
  "writer0 = \<lparr>socket = Some 0, address = ''127.0.0.1:9999'', enableLogging = True\<rparr>"

definition world1 :: world where
  "world1 =
     \<lparr>calls = [ResolveUDPAddr ''127.0.0.1:9999'', NetDialUDP (UDPAddr ''127.0.0.1'' 9999)],
      conns = 1, live = {0}, sink = []\<rparr>"

section \<open>What a caller can observe\<close>

text \<open>
  Of a writer and a world, everything except the logging flag and the lines handed to
  the logger.
\<close>

definition observable :: "UDPWriter \<times> world \<Rightarrow> conn option \<times> string \<times> call list \<times> nat \<times> conn set" where
  "observable x = (socket (fst x), address (fst x), calls (snd x), conns (snd x), live (snd x))"

section \<open>Basic facts\<close>

lemma dial_loopback:
  "DialUDP loopback_env ''127.0.0.1:9999'' True world0 = (Inr writer0, world1)"
  by (simp add: DialUDP_def open_conn_def net_ResolveUDPAddr_def net_DialUDP_def
      loopback_env_def writer0_def world0_def world1_def)

lemma write_loop_done:
  "\<not> (t < length raw \<and> e = None) \<Longrightarrow>
   write_loop env u raw t e w = Some (Returns ((t, e), w))"
  by (subst write_loop.simps) auto

lemma write_loop_step:
  "t < length raw \<Longrightarrow>
   write_loop env u raw t None w =
     (case conn_Write env (socket u) (drop t raw) w of
        Panics \<Rightarrow> Some Panics
      | Returns x \<Rightarrow> write_loop env u raw (t + fst (fst x)) (snd (fst x)) (snd x))"
  by (subst write_loop.simps) (simp add: case_prod_beta split: outcome.splits)

text \<open>A writer without a socket: every use of the socket panics.\<close>

lemma Close_nil: "socket u = None \<Longrightarrow> Close env u w = Panics"
  by (simp add: Close_def conn_Close_def)

lemma Reopen_nil: "socket u = None \<Longrightarrow> Reopen env u w = Panics"
  by (simp add: Reopen_def Close_nil)

lemma Write_nil: "socket u = None \<Longrightarrow> raw \<noteq> [] \<Longrightarrow> Write env u raw w = Some Panics"
  by (simp add: Write_def write_loop_step conn_Write_def)

lemma Close_frame: "Close env u w = Returns (r, u', w') \<Longrightarrow> u' = u"
  by (auto simp: Close_def split: outcome.splits prod.splits)

lemma open_conn_frame:
  "open_conn env u w = (r, u', w') \<Longrightarrow>
   address u' = address u \<and> enableLogging u' = enableLogging u"
  by (auto simp: open_conn_def split: prod.splits sum.splits)

lemma Reopen_frame:
  "Reopen env u w = Returns (r, u', w') \<Longrightarrow>
   address u' = address u \<and> enableLogging u' = enableLogging u"
  by (auto simp: Reopen_def split: outcome.splits prod.splits option.splits
      dest!: Close_frame open_conn_frame)

lemma Write_frame: "Write env u raw w = Some (Returns (r, u', w')) \<Longrightarrow> u' = u"
  by (auto simp: Write_def Let_def split: outcome.splits option.splits prod.splits if_splits
      dest: Close_frame)

lemma Log_frame: "Log env u msg w = Some (Returns (r, u', w')) \<Longrightarrow> u' = u"
  by (auto simp: Log_def split: prod.splits dest: Write_frame)

lemma fmt_payload:
  "fmt_Sprintf basicMessageFormat [now, msg, host] =
     ''{\"@timestamp\":\"'' @ now @ ''\", \"@version\":\"2\", \"message\":\"'' @ msg @
     ''\", \"host\":\"'' @ host @ ''\"}'' @ [CHR 0x0A]"
  by (simp add: basicMessageFormat_def)

text \<open>The loop and the methods under a change of the logging flag and of the log sink.\<close>

lemma conn_Write_sink:
  "conn_Write env s b (w\<lparr>sink := k\<rparr>) =
     map_outcome (\<lambda>x. (fst x, (snd x)\<lparr>sink := k\<rparr>)) (conn_Write env s b w)"
  by (cases s) (simp_all add: conn_Write_def)

lemma write_loop_sim:
  assumes "write_loop env u raw t e w = Some y"
  shows "socket u' = socket u \<longrightarrow>
         write_loop env u' raw t e (w\<lparr>sink := k\<rparr>) =
           Some (map_outcome (\<lambda>x. (fst x, (snd x)\<lparr>sink := k\<rparr>)) y)"
  using assms
proof (induction rule: write_loop.raw_induct [rotated, consumes 1, case_names step])
  case (step wl env u raw t e w y)
  show ?case
  proof
    assume s: "socket u' = socket u"
    show "write_loop env u' raw t e (w\<lparr>sink := k\<rparr>) =
            Some (map_outcome (\<lambda>x. (fst x, (snd x)\<lparr>sink := k\<rparr>)) y)"
    proof (cases "t < length raw \<and> e = None")
      case False
      with step(2) have "y = Returns ((t, e), w)" by auto
      with False show ?thesis by (simp add: write_loop_done)
    next
      case True
      show ?thesis
      proof (cases "conn_Write env (socket u) (drop t raw) w")
        case Panics
        with step(2) True have "y = Panics" by simp
        with True Panics s show ?thesis
          by (simp add: write_loop_step conn_Write_sink)
      next
        case (Returns x)
        with step(2) True
        have "wl env u raw (t + fst (fst x)) (snd (fst x)) (snd x) = Some y"
          by (simp add: case_prod_beta)
        from step(1) [OF this] s True Returns show ?thesis
          by (simp add: write_loop_step conn_Write_sink)
      qed
    qed
  qed
qed

lemma write_loop_flag:
  assumes s: "socket u' = socket u"
  shows "write_loop env u' raw t e (w\<lparr>sink := k\<rparr>) =
         map_option (map_outcome (\<lambda>x. (fst x, (snd x)\<lparr>sink := k\<rparr>)))
           (write_loop env u raw t e w)"
proof (cases "write_loop env u raw t e w")
  case (Some y)
  with write_loop_sim [OF Some, of u' k] s show ?thesis by simp
next
  case None
  have "write_loop env u' raw t e (w\<lparr>sink := k\<rparr>) = None"
  proof (cases "write_loop env u' raw t e (w\<lparr>sink := k\<rparr>)")
    case (Some z)
    from write_loop_sim [OF Some, of u "sink w"] s None show ?thesis by simp
  qed simp
  with None show ?thesis by simp
qed

lemma conn_Close_sink:
  "conn_Close env s (w\<lparr>sink := k\<rparr>) =
     map_outcome (\<lambda>x. (fst x, (snd x)\<lparr>sink := k\<rparr>)) (conn_Close env s w)"
  by (cases s) (simp_all add: conn_Close_def)

lemma Close_sink:
  "Close env (u\<lparr>enableLogging := b\<rparr>) (w\<lparr>sink := k\<rparr>) =
     map_outcome (\<lambda>(r, u', w'). (r, u'\<lparr>enableLogging := b\<rparr>, w'\<lparr>sink := k\<rparr>)) (Close env u w)"
  by (cases "socket u") (simp_all add: Close_def conn_Close_def)

lemma open_conn_sink:
  "open_conn env (u\<lparr>enableLogging := b\<rparr>) (w\<lparr>sink := k\<rparr>) =
     (case open_conn env u w of (r, u', w') \<Rightarrow> (r, u'\<lparr>enableLogging := b\<rparr>, w'\<lparr>sink := k\<rparr>))"
  by (simp add: open_conn_def net_ResolveUDPAddr_def net_DialUDP_def
      split: sum.splits option.splits)

lemma Reopen_sink:
  "Reopen env (u\<lparr>enableLogging := b\<rparr>) (w\<lparr>sink := k\<rparr>) =
     map_outcome (\<lambda>(r, u', w'). (r, u'\<lparr>enableLogging := b\<rparr>, w'\<lparr>sink := k\<rparr>)) (Reopen env u w)"
  by (cases "Close env u w")
     (auto simp: Reopen_def Close_sink open_conn_sink split: prod.splits option.splits)

lemma Close_flag:
  "map_outcome (map_prod id observable) (Close env (u\<lparr>enableLogging := b\<rparr>) (w\<lparr>sink := k\<rparr>)) =
   map_outcome (map_prod id observable) (Close env u w)"
  by (cases "Close env u w") (auto simp: Close_sink observable_def)

lemma Reopen_flag:
  "map_outcome (map_prod id observable) (Reopen env (u\<lparr>enableLogging := b\<rparr>) (w\<lparr>sink := k\<rparr>)) =
   map_outcome (map_prod id observable) (Reopen env u w)"
  by (cases "Reopen env u w") (auto simp: Reopen_sink observable_def)

lemma Write_flag:
  "map_option (map_outcome (map_prod id observable))
     (Write env (u\<lparr>enableLogging := b\<rparr>) raw (w\<lparr>sink := k\<rparr>)) =
   map_option (map_outcome (map_prod id observable)) (Write env u raw w)"
proof -
  have loop: "write_loop env (u\<lparr>enableLogging := b\<rparr>) raw 0 None (w\<lparr>sink := k\<rparr>) =
      map_option (map_outcome (\<lambda>x. (fst x, (snd x)\<lparr>sink := k\<rparr>))) (write_loop env u raw 0 None w)"
    by (rule write_loop_flag) simp
  show ?thesis
  proof (cases "write_loop env u raw 0 None w")
    case None
    with loop show ?thesis by (simp add: Write_def)
  next
    case (Some y)
    note run = this
    show ?thesis
    proof (cases y)
      case Panics
      with loop run show ?thesis by (simp add: Write_def)
    next
      case (Returns x)
      obtain tot werr w1 where x: "x = ((tot, werr), w1)" by (cases x) auto
      show ?thesis
      proof (cases werr)
        case None
        with loop run Returns x show ?thesis by (simp add: Write_def observable_def)
      next
        case (Some e)
        show ?thesis
        proof (cases "socket u")
          case None
          with loop run Returns x Some show ?thesis
            by (simp add: Write_def Close_def conn_Close_def Let_def)
        next
          case (Some c)
          with loop run Returns x \<open>werr = Some e\<close> show ?thesis
            by (simp add: Write_def Close_def conn_Close_def log_Printf_def observable_def
                Let_def)
        qed
      qed
    qed
  qed
qed

lemma Log_flag:
  "map_option (map_outcome (map_prod id observable))
     (Log env (u\<lparr>enableLogging := b\<rparr>) msg (w\<lparr>sink := k\<rparr>)) =
   map_option (map_outcome (map_prod id observable)) (Log env u msg w)"
proof -
  have sw: "\<And>c. w\<lparr>sink := k, calls := c\<rparr> = w\<lparr>calls := c, sink := k\<rparr>"
    by simp
  show ?thesis
    by (simp add: Log_def os_Hostname_def time_Now_String_def sw Write_flag split: sum.splits)
qed

text \<open>What \<^verbatim>\<open>Write\<close> returns once a socket write has failed: the result of the one close.\<close>

lemma Write_after_error:
  "write_loop env u raw 0 None w = Some (Returns ((tot, Some e), w1)) \<Longrightarrow>
   socket u = Some c \<Longrightarrow>
   \<exists>w'. Write env u raw w =
          Some (Returns ((tot, if c \<in> live w1 then connClose env (calls w1) c
                               else Some ErrNetClosing), u, w')) \<and>
        calls w' = calls w1 @ [ConnClose (Some c)]"
  by (auto simp: Write_def Close_def conn_Close_def log_Printf_def Let_def)

text \<open>The loop and \<^verbatim>\<open>Write\<close> use of the environment only its socket writes and closes.\<close>

lemma conn_Write_env:
  "connWrite env' = connWrite env \<Longrightarrow> conn_Write env' s b w = conn_Write env s b w"
  by (cases s) (simp_all add: conn_Write_def)

lemma Close_env:
  "connClose env' = connClose env \<Longrightarrow> Close env' u w = Close env u w"
  by (cases "socket u") (simp_all add: Close_def conn_Close_def)

lemma write_loop_env_sim:
  assumes "write_loop env u raw t e w = Some y"
  shows "connWrite env' = connWrite env \<longrightarrow> write_loop env' u raw t e w = Some y"
  using assms
proof (induction rule: write_loop.raw_induct [rotated, consumes 1, case_names step])
  case (step wl env u raw t e w y)
  show ?case
  proof
    assume c: "connWrite env' = connWrite env"
    show "write_loop env' u raw t e w = Some y"
    proof (cases "t < length raw \<and> e = None")
      case False
      with step(2) have "y = Returns ((t, e), w)" by auto
      with False show ?thesis by (simp add: write_loop_done)
    next
      case True
      show ?thesis
      proof (cases "conn_Write env (socket u) (drop t raw) w")
        case Panics
        with step(2) True have "y = Panics" by simp
        with True Panics show ?thesis
          by (simp add: write_loop_step conn_Write_env [OF c])
      next
        case (Returns x)
        with step(2) True
        have "wl env u raw (t + fst (fst x)) (snd (fst x)) (snd x) = Some y"
          by (simp add: case_prod_beta)
        from step(1) [OF this] c True Returns show ?thesis
          by (simp add: write_loop_step conn_Write_env [OF c])
      qed
    qed
  qed
qed

lemma write_loop_env:
  assumes c: "connWrite env' = connWrite env"
  shows "write_loop env' u raw t e w = write_loop env u raw t e w"
proof (cases "write_loop env u raw t e w")
  case (Some y)
  with write_loop_env_sim [OF Some, of env'] c show ?thesis by simp
next
  case None
  have "write_loop env' u raw t e w = None"
  proof (cases "write_loop env' u raw t e w")
    case (Some z)
    from write_loop_env_sim [OF Some, of env] c None show ?thesis by simp
  qed simp
  with None show ?thesis by simp
qed

lemma Write_env:
  assumes w: "connWrite env' = connWrite env" and c: "connClose env' = connClose env"
  shows "Write env' u raw w = Write env u raw w"
proof -
  have l: "write_loop env' u raw 0 None w = write_loop env u raw 0 None w"
    by (rule write_loop_env) (rule w)
  have k: "Close env' = Close env"
    by (intro ext) (rule Close_env, rule c)
  show ?thesis
    unfolding Write_def l k ..
qed

section \<open>The constructor\<close>

text \<open>
  C4. When the resolver rejects the address, \<^verbatim>\<open>DialUDP\<close> returns that resolver error
  and no writer. The only call it has made is the resolution: no connection was dialled,
  so the number of connection objects and the set of open ones are what they were.
\<close>

theorem DialUDP_unresolved:
  "resolveUDPAddr env (calls w) addr = Inl e \<Longrightarrow>
   DialUDP env addr logging w = (Inl e, w\<lparr>calls := calls w @ [ResolveUDPAddr addr]\<rparr>)"
  by (simp add: DialUDP_def open_conn_def net_ResolveUDPAddr_def)

theorem DialUDP_unresolved_witness:
  "resolveUDPAddr loopback_env (calls world0) ''ADDRESS'' =
     Inl (OSError ''missing port in address'') \<and>
   DialUDP loopback_env ''ADDRESS'' True world0 =
     (Inl (OSError ''missing port in address''),
      \<lparr>calls = [ResolveUDPAddr ''ADDRESS''], conns = 0, live = {}, sink = []\<rparr>)"
proof -
  have h: "resolveUDPAddr loopback_env (calls world0) ''ADDRESS'' =
             Inl (OSError ''missing port in address'')"
    by (simp add: loopback_env_def)
  from DialUDP_unresolved [OF h, of True] h show ?thesis
    by (simp add: world0_def)
qed

section \<open>Close\<close>

text \<open>
  C8. \<^verbatim>\<open>Close\<close> neither clears the socket field nor remembers that it ran, so a second
  \<^verbatim>\<open>Close\<close> calls \<^verbatim>\<open>Close\<close> on the same connection again, and \<^verbatim>\<open>net\<close> refuses it:
  whatever the first \<^verbatim>\<open>Close\<close> returned, the second returns the error of a connection
  that is closed already, having made that one call.
\<close>

theorem Close_twice:
  "Close env u w = Returns (r, u', w') \<Longrightarrow>
   Close env u' w' =
     Returns (Some ErrNetClosing, u', w'\<lparr>calls := calls w' @ [ConnClose (socket u')]\<rparr>)"
  by (auto simp: Close_def conn_Close_def split: option.splits if_splits)

theorem Close_twice_witness:
  "Close loopback_env writer0 world1 =
     Returns (None, writer0,
              world1\<lparr>calls := calls world1 @ [ConnClose (Some 0)], live := {}\<rparr>) \<and>
   Close loopback_env writer0
       (world1\<lparr>calls := calls world1 @ [ConnClose (Some 0)], live := {}\<rparr>) =
     Returns (Some ErrNetClosing, writer0,
              world1\<lparr>calls := calls world1 @ [ConnClose (Some 0), ConnClose (Some 0)],
                     live := {}\<rparr>)"
proof -
  have h: "Close loopback_env writer0 world1 =
     Returns (None, writer0,
              world1\<lparr>calls := calls world1 @ [ConnClose (Some 0)], live := {}\<rparr>)"
    by (simp add: Close_def conn_Close_def loopback_env_def writer0_def world1_def)
  from Close_twice [OF h] h show ?thesis
    by (simp add: writer0_def world1_def)
qed

section \<open>Write\<close>

text \<open>
  C9. With an empty payload the loop condition is false at once: \<^verbatim>\<open>Write\<close> returns
  \<^verbatim>\<open>(0, nil)\<close> and leaves writer and world as they were, so it has called neither
  \<^verbatim>\<open>Write\<close> nor \<^verbatim>\<open>Close\<close> on the socket.
\<close>

theorem Write_empty: "Write env u [] w = Some (Returns ((0, None), u, w))"
  by (simp add: Write_def write_loop_done)

text \<open>
  C1. The socket refuses the write and the close that follows succeeds. \<^verbatim>\<open>Write\<close> has
  put the result of \<^verbatim>\<open>Close\<close> into \<^verbatim>\<open>writeError\<close>, so what it returns is \<^verbatim>\<open>(0, nil)\<close>:
  the write error reaches the logger and not the caller. The socket was closed once.
\<close>

theorem Write_drops_write_error:
  "Write refusing_env writer0 ''x'' world1 =
     Some (Returns ((0, None), writer0,
           world1\<lparr>calls := calls world1 @ [ConnWrite (Some 0) ''x'', ConnClose (Some 0)],
                  live := {},
                  sink := [(''Error while writing data to %s. Expected to write %d, actually wrote %d. Underlying error: %s'',
                            [S ''127.0.0.1:9999'', D 1, D 0, E (OSError ''connection refused'')])]\<rparr>))"
  by (simp add: Write_def write_loop_step write_loop_done conn_Write_def Close_def conn_Close_def
      log_Printf_def refusing_env_def loopback_env_def writer0_def world1_def)

text \<open>
  C2. A payload of three bytes on a socket that refuses the write. The loop does what
  the claim says: it offers the whole payload, and ends after that one write with the
  transport's error and a total of 0. \<^verbatim>\<open>Write\<close> then closes the socket, and returns
  the nil result of that close: the caller gets a nil error with a count of 0, which
  is not the payload length, and no error.
\<close>

theorem Write_nil_error_short_count:
  "write_loop refusing_env writer0 ''abc'' 0 None world1 =
     Some (Returns ((0, Some (OSError ''connection refused'')),
           world1\<lparr>calls := calls world1 @ [ConnWrite (Some 0) ''abc'']\<rparr>)) \<and>
   map_option (map_outcome fst) (Write refusing_env writer0 ''abc'' world1) =
     Some (Returns (0, None)) \<and>
   length ''abc'' = 3"
  by (simp add: Write_def write_loop_step write_loop_done conn_Write_def Close_def conn_Close_def
      log_Printf_def refusing_env_def loopback_env_def writer0_def world1_def)

section \<open>Reopen\<close>



section \<open>Log\<close>

text \<open>
  C6. Every \<^verbatim>\<open>Log\<close> asks for the host name and then for the time, and is \<^verbatim>\<open>Write\<close>
  of the formatted envelope; the error of the lookup is used nowhere. When the lookup
  fails, the envelope has an empty host field, and \<^verbatim>\<open>Log\<close> does what it does on a
  machine whose host name is the empty string: the failure adds no error of its own.
\<close>

theorem Log_hostname_failure:
  "Log env u msg w =
     Write env u
       (fmt_Sprintf basicMessageFormat
          [timeNow env (calls w @ [OsHostname]), msg,
           case osHostname env (calls w) of Inl e \<Rightarrow> [] | Inr h \<Rightarrow> h])
       (w\<lparr>calls := calls w @ [OsHostname, TimeNow]\<rparr>) \<and>
   (osHostname env (calls w) = Inl e \<longrightarrow>
      Log env u msg w =
        Write env u
          (''{\"@timestamp\":\"'' @ timeNow env (calls w @ [OsHostname]) @
           ''\", \"@version\":\"2\", \"message\":\"'' @ msg @ ''\", \"host\":\"\"}'' @ [CHR 0x0A])
          (w\<lparr>calls := calls w @ [OsHostname, TimeNow]\<rparr>) \<and>
      Log env u msg w = Log (env\<lparr>osHostname := (\<lambda>h. Inr [])\<rparr>) u msg w)"
proof -
  have e: "Write (env\<lparr>osHostname := (\<lambda>h. Inr [])\<rparr>) u p w' = Write env u p w'" for p w'
    by (rule Write_env) simp_all
  show ?thesis
    by (simp add: Log_def os_Hostname_def time_Now_String_def fmt_payload e split: sum.splits)
qed

theorem Log_hostname_failure_witness:
  "osHostname nohost_env (calls world1) = Inl (OSError ''no host name'') \<and>
   Log nohost_env writer0 ''test'' world1 =
     Write nohost_env writer0
       (''{\"@timestamp\":\"T\", \"@version\":\"2\", \"message\":\"test\", \"host\":\"\"}'' @
        [CHR 0x0A])
       (world1\<lparr>calls := calls world1 @ [OsHostname, TimeNow]\<rparr>) \<and>
   Log nohost_env writer0 ''test'' world1 =
     Some (Returns ((64, None), writer0,
           world1\<lparr>calls := calls world1 @
             [OsHostname, TimeNow,
              ConnWrite (Some 0)
                (''{\"@timestamp\":\"T\", \"@version\":\"2\", \"message\":\"test\", \"host\":\"\"}'' @
                 [CHR 0x0A])]\<rparr>))"
proof -
  have h: "osHostname nohost_env (calls world1) = Inl (OSError ''no host name'')"
    by (simp add: nohost_env_def)
  have t: "timeNow nohost_env (calls world1 @ [OsHostname]) = ''T''"
    by (simp add: nohost_env_def loopback_env_def)
  have v: "Write nohost_env writer0
       (''{\"@timestamp\":\"T\", \"@version\":\"2\", \"message\":\"test\", \"host\":\"\"}'' @
        [CHR 0x0A])
       (world1\<lparr>calls := calls world1 @ [OsHostname, TimeNow]\<rparr>) =
     Some (Returns ((64, None), writer0,
           world1\<lparr>calls := calls world1 @
             [OsHostname, TimeNow,
              ConnWrite (Some 0)
                (''{\"@timestamp\":\"T\", \"@version\":\"2\", \"message\":\"test\", \"host\":\"\"}'' @
                 [CHR 0x0A])]\<rparr>))"
    by (simp add: Write_def write_loop_step write_loop_done conn_Write_def nohost_env_def
        loopback_env_def writer0_def world1_def)
  note th = Log_hostname_failure [of nohost_env writer0 "''test''" world1
      "OSError ''no host name''", THEN conjunct2, THEN mp, OF h, THEN conjunct1]
  from th t
  have "Log nohost_env writer0 ''test'' world1 =
     Write nohost_env writer0
       (''{\"@timestamp\":\"T\", \"@version\":\"2\", \"message\":\"test\", \"host\":\"\"}'' @
        [CHR 0x0A])
       (world1\<lparr>calls := calls world1 @ [OsHostname, TimeNow]\<rparr>)"
    by simp
  with h v show ?thesis by simp
qed

text \<open>
  C3. For every message the payload is the template with time stamp, message and host
  name inserted as they are, ending in one newline (\<open>fmt_payload\<close>). The returned count
  is another matter: when the socket refuses the write and the close that follows
  succeeds, \<^verbatim>\<open>Log\<close> returns a nil error with the count 0 for a payload of 67 bytes.
\<close>

theorem Log_drops_write_error:
  "map_option (map_outcome fst) (Log refusing_env writer0 ''test'' world1) =
     Some (Returns (0, None)) \<and>
   length (fmt_Sprintf basicMessageFormat [''T'', ''test'', ''box'']) = 67"
  by (simp add: Log_def os_Hostname_def time_Now_String_def fmt_payload Write_def
      write_loop_step write_loop_done conn_Write_def Close_def conn_Close_def log_Printf_def
      refusing_env_def loopback_env_def writer0_def world1_def)

section \<open>The logging flag\<close>

text \<open>
  C7. Take a writer and a world, and change the logging flag of the one and what the
  logger has received in the other. Then \<^verbatim>\<open>Close\<close>, \<^verbatim>\<open>Reopen\<close>, \<^verbatim>\<open>Write\<close> and
  \<^verbatim>\<open>Log\<close> return the same results (and either both come back or neither does, and
  either both panic or neither does), leave the same socket and address in the writer,
  and have made the same calls and left the same connections open.
\<close>

theorem logging_flag_unobservable:
  "map_outcome (map_prod id observable)
     (Close env (u\<lparr>enableLogging := b\<rparr>) (w\<lparr>sink := k\<rparr>)) =
     map_outcome (map_prod id observable) (Close env u w) \<and>
   map_outcome (map_prod id observable)
     (Reopen env (u\<lparr>enableLogging := b\<rparr>) (w\<lparr>sink := k\<rparr>)) =
     map_outcome (map_prod id observable) (Reopen env u w) \<and>
   map_option (map_outcome (map_prod id observable))
     (Write env (u\<lparr>enableLogging := b\<rparr>) raw (w\<lparr>sink := k\<rparr>)) =
     map_option (map_outcome (map_prod id observable)) (Write env u raw w) \<and>
   map_option (map_outcome (map_prod id observable))
     (Log env (u\<lparr>enableLogging := b\<rparr>) msg (w\<lparr>sink := k\<rparr>)) =
     map_option (map_outcome (map_prod id observable)) (Log env u msg w)"
  by (simp only: Close_flag Reopen_flag Write_flag Log_flag)

section \<open>The configuration of a writer\<close>

text \<open>
  C10. Whatever \<^verbatim>\<open>Close\<close>, \<^verbatim>\<open>Reopen\<close>, \<^verbatim>\<open>Write\<close> and \<^verbatim>\<open>Log\<close> return, the writer
  they leave has the address and the logging flag it had before; the socket is the only
  field that can differ.
\<close>

theorem operations_keep_configuration:
  "(Close env u w = Returns (r1, u1, w1) \<longrightarrow>
      address u1 = address u \<and> enableLogging u1 = enableLogging u) \<and>
   (Reopen env u w = Returns (r2, u2, w2) \<longrightarrow>
      address u2 = address u \<and> enableLogging u2 = enableLogging u) \<and>
   (Write env u raw w = Some (Returns (r3, u3, w3)) \<longrightarrow>
      address u3 = address u \<and> enableLogging u3 = enableLogging u) \<and>
   (Log env u msg w = Some (Returns (r4, u4, w4)) \<longrightarrow>
      address u4 = address u \<and> enableLogging u4 = enableLogging u)"
  by (auto dest: Close_frame Reopen_frame Write_frame Log_frame)

theorem operations_keep_configuration_witness:
  "Close loopback_env writer0 world1 =
     Returns (None, writer0,
              world1\<lparr>calls := calls world1 @ [ConnClose (Some 0)], live := {}\<rparr>) \<and>
   Reopen loopback_env writer0 world1 =
     Returns (None, writer0\<lparr>socket := Some 1\<rparr>,
      \<lparr>calls = calls world1 @
         [ConnClose (Some 0), ResolveUDPAddr ''127.0.0.1:9999'',
          NetDialUDP (UDPAddr ''127.0.0.1'' 9999)],
       conns = 2, live = {1}, sink = []\<rparr>) \<and>
   Write loopback_env writer0 ''abc'' world1 =
     Some (Returns ((3, None), writer0,
           world1\<lparr>calls := calls world1 @ [ConnWrite (Some 0) ''abc'']\<rparr>)) \<and>
   Log loopback_env writer0 ''test'' world1 =
     Some (Returns ((67, None), writer0,
           world1\<lparr>calls := calls world1 @
             [OsHostname, TimeNow,
              ConnWrite (Some 0)
                (''{\"@timestamp\":\"T\", \"@version\":\"2\", \"message\":\"test\", \"host\":\"box\"}'' @
                 [CHR 0x0A])]\<rparr>)) \<and>
   address (writer0\<lparr>socket := Some 1\<rparr>) = address writer0 \<and>
   enableLogging (writer0\<lparr>socket := Some 1\<rparr>) = enableLogging writer0"
proof -
  have c: "Close loopback_env writer0 world1 =
     Returns (None, writer0,
              world1\<lparr>calls := calls world1 @ [ConnClose (Some 0)], live := {}\<rparr>)"
    by (simp add: Close_def conn_Close_def loopback_env_def writer0_def world1_def)
  have r: "Reopen loopback_env writer0 world1 =
     Returns (None, writer0\<lparr>socket := Some 1\<rparr>,
      \<lparr>calls = calls world1 @
         [ConnClose (Some 0), ResolveUDPAddr ''127.0.0.1:9999'',
          NetDialUDP (UDPAddr ''127.0.0.1'' 9999)],
       conns = 2, live = {1}, sink = []\<rparr>)"
    by (simp add: Reopen_def Close_def conn_Close_def open_conn_def net_ResolveUDPAddr_def
        net_DialUDP_def loopback_env_def writer0_def world1_def)
  have wr: "Write loopback_env writer0 ''abc'' world1 =
     Some (Returns ((3, None), writer0,
           world1\<lparr>calls := calls world1 @ [ConnWrite (Some 0) ''abc'']\<rparr>))"
    by (simp add: Write_def write_loop_step write_loop_done conn_Write_def loopback_env_def
        writer0_def world1_def)
  have l: "Log loopback_env writer0 ''test'' world1 =
     Some (Returns ((67, None), writer0,
           world1\<lparr>calls := calls world1 @
             [OsHostname, TimeNow,
              ConnWrite (Some 0)
                (''{\"@timestamp\":\"T\", \"@version\":\"2\", \"message\":\"test\", \"host\":\"box\"}'' @
                 [CHR 0x0A])]\<rparr>))"
    by (simp add: Log_def os_Hostname_def time_Now_String_def fmt_payload Write_def
        write_loop_step write_loop_done conn_Write_def loopback_env_def writer0_def world1_def)
  from operations_keep_configuration [where env = loopback_env and u = writer0 and w = world1
      and ?r2.0 = None and ?u2.0 = "writer0\<lparr>socket := Some 1\<rparr>"
      and ?w2.0 = "\<lparr>calls = calls world1 @
         [ConnClose (Some 0), ResolveUDPAddr ''127.0.0.1:9999'',
          NetDialUDP (UDPAddr ''127.0.0.1'' 9999)],
       conns = 2, live = {1}, sink = []\<rparr>"] r
  have "address (writer0\<lparr>socket := Some 1\<rparr>) = address writer0 \<and>
        enableLogging (writer0\<lparr>socket := Some 1\<rparr>) = enableLogging writer0"
    by blast
  with c r wr l show ?thesis by blast
qed

end
